theory Spec2Isabelle
  imports Complex_Main "HOL-Library.AList" "HOL-Library.Sublist"
begin

section \<open>JavaScript values\<close>

text \<open>
  Schema documents, validation options and the data handed to \<open>validate\<close> and \<open>parse\<close>
  are plain JavaScript values. An object is the list of its own enumerable properties in
  insertion order (the order \<open>for ... in\<close> and \<open>Object.keys\<close> use for keys that are not
  array indices); its keys are distinct. A number is an exact rational or one of the
  three special values, so binary rounding of literals is not represented. A date is its
  time value in milliseconds since the epoch, \<open>None\<close> for an invalid date.
\<close>

datatype jsnum = Fin rat | PosInf | NegInf | NaN

datatype jv =
    JUndefined
  | JNull
  | JBool bool
  | JNum jsnum
  | JStr string
  | JDate "int option"
  | JArr "jv list"
  | JObj "(string \<times> jv) list"

text \<open>Property read \<open>o.k\<close> / \<open>o?.k\<close> (undefined when absent) and the \<open>in\<close> operator.\<close>

fun getp :: "jv \<Rightarrow> string \<Rightarrow> jv" where
  "getp (JObj kvs) k = (case map_of kvs k of Some v \<Rightarrow> v | None \<Rightarrow> JUndefined)"
| "getp _ k = JUndefined"

fun hasKey :: "jv \<Rightarrow> string \<Rightarrow> bool" where
  "hasKey (JObj kvs) k = (map_of kvs k \<noteq> None)"
| "hasKey _ k = False"

text \<open>Property write \<open>o.k = v\<close> and \<open>delete o.k\<close> on an object.\<close>

fun setp :: "jv \<Rightarrow> string \<Rightarrow> jv \<Rightarrow> jv" where
  "setp (JObj kvs) k v = JObj (AList.update k v kvs)"
| "setp x k v = x"

fun delp :: "jv \<Rightarrow> string \<Rightarrow> jv" where
  "delp (JObj kvs) k = JObj (AList.delete k kvs)"
| "delp x k = x"

fun keysOf :: "jv \<Rightarrow> string list" where
  "keysOf (JObj kvs) = map fst kvs"
| "keysOf _ = []"

fun elems :: "jv \<Rightarrow> jv list" where
  "elems (JArr xs) = xs"
| "elems _ = []"

fun propValues :: "jv \<Rightarrow> jv list" where
  "propValues (JObj kvs) = map snd kvs"
| "propValues _ = []"

text \<open>JavaScript truthiness, as tested by \<open>if (x)\<close>, \<open>!x\<close>, \<open>x || y\<close>.\<close>

fun truthy :: "jv \<Rightarrow> bool" where
  "truthy JUndefined = False"
| "truthy JNull = False"
| "truthy (JBool b) = b"
| "truthy (JNum n) = (n \<noteq> NaN \<and> n \<noteq> Fin 0)"
| "truthy (JStr s) = (s \<noteq> [])"
| "truthy (JDate t) = True"
| "truthy (JArr xs) = True"
| "truthy (JObj kvs) = True"

text \<open>Object spread \<open>{...a, ...b}\<close> on property lists.\<close>

definition spread :: "(string \<times> jv) list \<Rightarrow> (string \<times> jv) list \<Rightarrow> (string \<times> jv) list" where
  "spread a b = fold (\<lambda>(k, v) acc. AList.update k v acc) b a"

section \<open>Errors\<close>

text \<open>
  Every failure of the library is a \<open>VError\<close>. Construction and shape failures carry only
  a message; a validation failure is the \<open>VError\<close> named
  \<open>SerafinSchemaValidationError\<close> built by \<open>validationError\<close>, with the engine's
  violations as details. The remaining constructors are the exceptions of the host
  language that the code can let through.
\<close>

type_synonym violation = "string \<times> string"

datatype error =
    VError string
  | SerafinSchemaValidationError string "violation list"
  | RangeError string
  | TypeError string
  | SyntaxError string

fun traverse :: "('a \<Rightarrow> 'e + 'b) \<Rightarrow> 'a list \<Rightarrow> 'e + 'b list" where
  "traverse f [] = Inr []"
| "traverse f (x # xs) =
     (case f x of
        Inl e \<Rightarrow> Inl e
      | Inr y \<Rightarrow> (case traverse f xs of Inl e \<Rightarrow> Inl e | Inr ys \<Rightarrow> Inr (y # ys)))"

lemma traverse_cong [fundef_cong]:
  "xs = ys \<Longrightarrow> (\<And>x. x \<in> set ys \<Longrightarrow> f x = g x) \<Longrightarrow> traverse f xs = traverse g ys"
  by (induction ys arbitrary: xs) (auto split: sum.splits)

section \<open>Dates\<close>

text \<open>
  \<open>Date.prototype.toISOString\<close> of the host language: the UTC calendar fields of a time
  value, always with three fractional digits and the suffix \<open>Z\<close>; years outside
  0..9999 are written with a sign and six digits. The calendar fields come from the day
  number by the proleptic Gregorian rules.
\<close>

definition digitChar :: "nat \<Rightarrow> char" where
  "digitChar n = ''0123456789'' ! (n mod 10)"

definition pad2 :: "nat \<Rightarrow> string" where
  "pad2 n = [digitChar (n div 10), digitChar n]"

definition pad3 :: "nat \<Rightarrow> string" where
  "pad3 n = digitChar (n div 100) # pad2 n"

definition pad4 :: "nat \<Rightarrow> string" where
  "pad4 n = digitChar (n div 1000) # pad3 n"

definition pad6 :: "nat \<Rightarrow> string" where
  "pad6 n = digitChar (n div 100000) # digitChar (n div 10000) # pad4 n"

definition civilFromDays :: "int \<Rightarrow> int \<times> int \<times> int" where
  "civilFromDays z =
     (let z' = z + 719468;
          era = z' div 146097;
          doe = z' - era * 146097;
          yoe = (doe - doe div 1460 + doe div 36524 - doe div 146096) div 365;
          doy = doe - (365 * yoe + yoe div 4 - yoe div 100);
          mp = (5 * doy + 2) div 153;
          d = doy - (153 * mp + 2) div 5 + 1;
          m = (if mp < 10 then mp + 3 else mp - 9);
          y = yoe + era * 400 + (if m \<le> 2 then 1 else 0)
      in (y, m, d))"

definition daysFromCivil :: "int \<Rightarrow> int \<Rightarrow> int \<Rightarrow> int" where
  "daysFromCivil y m d =
     (let y' = (if m \<le> 2 then y - 1 else y);
          era = y' div 400;
          yoe = y' - era * 400;
          doy = (153 * (if m > 2 then m - 3 else m + 9) + 2) div 5 + d - 1;
          doe = yoe * 365 + yoe div 4 - yoe div 100 + doy
      in era * 146097 + doe - 719468)"

definition yearString :: "int \<Rightarrow> string" where
  "yearString y =
     (if 0 \<le> y \<and> y \<le> 9999 then pad4 (nat y)
      else (if y < 0 then ''-'' else ''+'') @ pad6 (nat \<bar>y\<bar>))"

definition toISOString :: "int \<Rightarrow> string" where
  "toISOString t =
     (let day = t div 86400000;
          ms = t mod 86400000;
          (y, m, d) = civilFromDays day
      in yearString y @ ''-'' @ pad2 (nat m) @ ''-'' @ pad2 (nat d) @ ''T''
         @ pad2 (nat (ms div 3600000)) @ '':'' @ pad2 (nat (ms div 60000 mod 60)) @ '':''
         @ pad2 (nat (ms div 1000 mod 60)) @ ''.'' @ pad3 (nat (ms mod 1000)) @ ''Z'')"

text \<open>
  \<open>transformDatesForValidation\<close>: a date becomes its ISO string (which raises a
  \<open>RangeError\<close> for an invalid date), arrays and objects are rebuilt element by element,
  anything else is returned as it is.
\<close>

fun transformDatesForValidation :: "jv \<Rightarrow> error + jv" where
  "transformDatesForValidation (JDate t) =
     (case t of
        None \<Rightarrow> Inl (RangeError ''Invalid time value'')
      | Some ms \<Rightarrow> Inr (JStr (toISOString ms)))"
| "transformDatesForValidation (JArr xs) =
     (case traverse transformDatesForValidation xs of
        Inl e \<Rightarrow> Inl e
      | Inr ys \<Rightarrow> Inr (JArr ys))"
| "transformDatesForValidation (JObj kvs) =
     (case traverse (\<lambda>(k, v). case transformDatesForValidation v of
                                Inl e \<Rightarrow> Inl e
                              | Inr v' \<Rightarrow> Inr (k, v')) kvs of
        Inl e \<Rightarrow> Inl e
      | Inr kvs' \<Rightarrow> Inr (JObj kvs'))"
| "transformDatesForValidation d = Inr d"

section \<open>Documents and the global configuration\<close>

type_synonym options = "(string \<times> jv) list"

text \<open>
  The validation engine is an external collaborator. It is a parameter of the model: given
  the options of the engine instance, the schemas registered with it under a name, the
  schema that was compiled and a datum, it yields the violations (instance path and
  message), none for a valid datum. A compiled validate function is the closure of the
  first three.
\<close>

type_synonym engine = "options \<Rightarrow> (string \<times> jv) list \<Rightarrow> jv \<Rightarrow> jv \<Rightarrow> violation list"

datatype validateFunction = Compiled options "(string \<times> jv) list" jv

fun runValidateFunction :: "engine \<Rightarrow> validateFunction \<Rightarrow> jv \<Rightarrow> violation list" where
  "runValidateFunction ajv (Compiled cfg reg s) x = ajv cfg reg s x"

text \<open>
  The static fields of the class. \<open>ajvCompileLog\<close> records, in order, every call of the
  engine's \<open>compile\<close> (instance options and compiled schema): it is the observable effect
  of compiling.
\<close>

record world =
  globalAJVConfig :: options
  globalAJVConfigVersionNumber :: nat
  ajvCompileLog :: "(options \<times> jv) list"

definition initialWorld :: world where
  "initialWorld =
     \<lparr> globalAJVConfig =
         [(''coerceTypes'', JBool False), (''removeAdditional'', JBool False),
          (''useDefaults'', JBool True), (''strict'', JBool False), (''allErrors'', JBool True)],
       globalAJVConfigVersionNumber = 0,
       ajvCompileLog = [] \<rparr>"

record SchemaBuilder =
  schemaObject :: jv
  validationConfig :: "options option"
  validationFunction :: "validateFunction option"
  localValidationFunctionVersionNumber :: nat
  listValidationFunction :: "validateFunction option"
  localListValidationFunctionVersionNumber :: nat

text \<open>
  Modelled from the spec: \<open>throughJsonSchema\<close> and \<open>cloneJSON\<close> of \<open>utils\<close>, which are not
  among the sources. \<open>throughJsonSchema\<close> visits a schema node and the nodes below it at
  \<open>properties\<close>, \<open>patternProperties\<close>, \<open>additionalProperties\<close>, \<open>items\<close>, \<open>oneOf\<close>,
  \<open>allOf\<close>, \<open>anyOf\<close> and \<open>not\<close>; the constructor fails when a visited node has the
  reference keyword. \<open>cloneJSON\<close> is a deep copy, the identity on values.
\<close>

fun schemaChildren :: "jv \<Rightarrow> jv list" where
  "schemaChildren (JObj kvs) =
     propValues (getp (JObj kvs) ''properties'')
     @ propValues (getp (JObj kvs) ''patternProperties'')
     @ elems (getp (JObj kvs) ''oneOf'') @ elems (getp (JObj kvs) ''allOf'')
     @ elems (getp (JObj kvs) ''anyOf'')
     @ (case getp (JObj kvs) ''items'' of JArr xs \<Rightarrow> xs | i \<Rightarrow> [i])
     @ [getp (JObj kvs) ''not'', getp (JObj kvs) ''additionalProperties'']"
| "schemaChildren _ = []"

lemma size_map_of:
  "map_of kvs k = Some v \<Longrightarrow> size v < Suc (size_list (size_prod (\<lambda>x. 0) size) kvs)"
  by (induction kvs) (auto split: if_splits)

lemma size_getp: "size (getp (JObj kvs) k) < size (JObj kvs)"
  by (auto split: option.splits dest: size_map_of)

lemma size_elems: "x \<in> set (elems v) \<Longrightarrow> size x < size v"
  by (cases v) (auto simp: less_Suc_eq_le size_list_estimation')

lemma size_snd_mem:
  "(k, x) \<in> set kvs \<Longrightarrow> size x < Suc (size_list (size_prod (\<lambda>x. 0) size) kvs)"
  by (induction kvs) auto

lemma size_propValues: "x \<in> set (propValues v) \<Longrightarrow> size x < size v"
  by (cases v) (auto dest: size_snd_mem)

lemma items_cases:
  "c \<in> set (case v of JArr xs \<Rightarrow> xs | i \<Rightarrow> [i]) \<Longrightarrow> c \<in> set (elems v) \<or> c = v"
  by (cases v) auto

lemma size_schemaChildren: "c \<in> set (schemaChildren s) \<Longrightarrow> size c < size s"
proof (cases s)
  case (JObj kvs)
  note g = size_getp [of kvs]
  assume "c \<in> set (schemaChildren s)"
  then consider k where "c \<in> set (propValues (getp (JObj kvs) k))"
    | k where "c \<in> set (elems (getp (JObj kvs) k))"
    | k where "c = getp (JObj kvs) k"
    unfolding JObj schemaChildren.simps
    by (auto simp del: getp.simps dest!: items_cases)
  then show ?thesis
  proof cases
    case 1 then show ?thesis using size_propValues [of c] g [of k] JObj by fastforce
  next
    case 2 then show ?thesis using size_elems [of c] g [of k] JObj by fastforce
  next
    case 3 then show ?thesis using g [of k] JObj by simp
  qed
qed simp_all

function containsRef :: "jv \<Rightarrow> bool" where
  "containsRef s = (hasKey s ''$ref'' \<or> list_ex containsRef (schemaChildren s))"
  by pat_completeness auto
termination
  by (relation "measure size") (auto dest: size_schemaChildren)

declare containsRef.simps [simp del]

definition cloneJSON :: "jv \<Rightarrow> jv" where
  "cloneJSON v = v"

text \<open>The constructor: a fresh instance has no compiled function and version numbers 0.\<close>

definition newSchemaBuilder :: "jv \<Rightarrow> options option \<Rightarrow> error + SchemaBuilder" where
  "newSchemaBuilder s cfg =
     (if containsRef s then
        Inl (VError (''Schema Builder Error: $ref can'' @ [CHR 0x27] @ ''t be used to initialize a SchemaBuilder. Dereferenced the schema first.''))
      else
        Inr \<lparr> schemaObject = s, validationConfig = cfg,
              validationFunction = None, localValidationFunctionVersionNumber = 0,
              listValidationFunction = None, localListValidationFunctionVersionNumber = 0 \<rparr>)"

definition setGlobalValidationConfig :: "world \<Rightarrow> options \<Rightarrow> world" where
  "setGlobalValidationConfig w config =
     w \<lparr> globalAJVConfig := spread (globalAJVConfig w) config,
         globalAJVConfigVersionNumber := globalAJVConfigVersionNumber w + 1 \<rparr>"

definition ajvValidationConfig :: "world \<Rightarrow> SchemaBuilder \<Rightarrow> options" where
  "ajvValidationConfig w d =
     (case validationConfig d of
        None \<Rightarrow> globalAJVConfig w
      | Some c \<Rightarrow> spread (globalAJVConfig w) c)"

definition cacheValidationFunction :: "world \<Rightarrow> SchemaBuilder \<Rightarrow> world \<times> SchemaBuilder" where
  "cacheValidationFunction w d =
     (if validationFunction d = None
         \<or> localValidationFunctionVersionNumber d \<noteq> globalAJVConfigVersionNumber w then
        (w \<lparr> ajvCompileLog := ajvCompileLog w @ [(ajvValidationConfig w d, schemaObject d)] \<rparr>,
         d \<lparr> localValidationFunctionVersionNumber := globalAJVConfigVersionNumber w,
             validationFunction := Some (Compiled (ajvValidationConfig w d) [] (schemaObject d)) \<rparr>)
      else (w, d))"

text \<open>The list form registers the document's schema as \<open>schema\<close> and compiles a wrapper.\<close>

definition listSchema :: jv where
  "listSchema =
     JObj [(''type'', JStr ''array''),
           (''items'', JObj [(''$ref'', JStr ''schema'')]),
           (''minItems'', JNum (Fin 1))]"

definition cacheListValidationFunction :: "world \<Rightarrow> SchemaBuilder \<Rightarrow> world \<times> SchemaBuilder" where
  "cacheListValidationFunction w d =
     (if listValidationFunction d = None
         \<or> localListValidationFunctionVersionNumber d \<noteq> globalAJVConfigVersionNumber w then
        (w \<lparr> ajvCompileLog := ajvCompileLog w @ [(ajvValidationConfig w d, listSchema)] \<rparr>,
         d \<lparr> localListValidationFunctionVersionNumber := globalAJVConfigVersionNumber w,
             listValidationFunction :=
               Some (Compiled (ajvValidationConfig w d) [(''schema'', schemaObject d)] listSchema) \<rparr>)
      else (w, d))"

text \<open>
  \<open>errorsText\<close> of the engine joins the violations, each rendered as the data variable
  followed by the instance path, a space and the message.
\<close>

fun joinWith :: "string \<Rightarrow> string list \<Rightarrow> string" where
  "joinWith sep [] = []"
| "joinWith sep [x] = x"
| "joinWith sep (x # y # ys) = x @ sep @ joinWith sep (y # ys)"

definition errorsText :: "violation list \<Rightarrow> string" where
  "errorsText errs =
     (if errs = [] then ''No errors''
      else joinWith '', '' (map (\<lambda>(p, m). ''data'' @ p @ '' '' @ m) errs))"

definition validationError :: "string \<Rightarrow> violation list \<Rightarrow> error" where
  "validationError ajvErrorsText errorsDetails =
     SerafinSchemaValidationError (''Invalid parameters: '' @ ajvErrorsText) errorsDetails"

definition validate ::
  "engine \<Rightarrow> world \<Rightarrow> SchemaBuilder \<Rightarrow> jv \<Rightarrow> (error + unit) \<times> world \<times> SchemaBuilder" where
  "validate ajv w d x =
     (case transformDatesForValidation x of
        Inl e \<Rightarrow> (Inl e, w, d)
      | Inr transformedData \<Rightarrow>
          (let (w', d') = cacheValidationFunction w d in
           case validationFunction d' of
             None \<Rightarrow> (Inl (TypeError ''this.validationFunction is not a function''), w', d')
           | Some f \<Rightarrow>
               (let errors = runValidateFunction ajv f transformedData in
                if errors = [] then (Inr (), w', d')
                else (Inl (validationError (errorsText errors) errors), w', d'))))"

definition validateList ::
  "engine \<Rightarrow> world \<Rightarrow> SchemaBuilder \<Rightarrow> jv list \<Rightarrow> (error + unit) \<times> world \<times> SchemaBuilder" where
  "validateList ajv w d list =
     (case traverse transformDatesForValidation list of
        Inl e \<Rightarrow> (Inl e, w, d)
      | Inr transformedList \<Rightarrow>
          (let (w', d') = cacheListValidationFunction w d in
           case listValidationFunction d' of
             None \<Rightarrow> (Inl (TypeError ''this.listValidationFunction is not a function''), w', d')
           | Some f \<Rightarrow>
               (let errors = runValidateFunction ajv f (JArr transformedList) in
                if errors = [] then (Inr (), w', d')
                else (Inl (validationError (errorsText errors) errors), w', d'))))"

text \<open>
  The states a program can reach: documents are created by the constructor (every
  transformation ends in it), the global configuration is changed, and documents are
  validated or their validation function is cached explicitly.
\<close>

inductive reachable :: "engine \<Rightarrow> world \<Rightarrow> SchemaBuilder list \<Rightarrow> bool" for ajv :: engine where
  r_init: "reachable ajv initialWorld []"
| r_new: "reachable ajv w ds \<Longrightarrow> newSchemaBuilder s cfg = Inr d \<Longrightarrow> reachable ajv w (d # ds)"
| r_config: "reachable ajv w ds \<Longrightarrow> reachable ajv (setGlobalValidationConfig w c) ds"
| r_cache: "reachable ajv w ds \<Longrightarrow> i < length ds \<Longrightarrow> cacheValidationFunction w (ds ! i) = (w', d')
     \<Longrightarrow> reachable ajv w' (ds[i := d'])"
| r_cacheList: "reachable ajv w ds \<Longrightarrow> i < length ds
     \<Longrightarrow> cacheListValidationFunction w (ds ! i) = (w', d')
     \<Longrightarrow> reachable ajv w' (ds[i := d'])"
| r_validate: "reachable ajv w ds \<Longrightarrow> i < length ds \<Longrightarrow> validate ajv w (ds ! i) x = (r, w', d')
     \<Longrightarrow> reachable ajv w' (ds[i := d'])"
| r_validateList: "reachable ajv w ds \<Longrightarrow> i < length ds
     \<Longrightarrow> validateList ajv w (ds ! i) xs = (r, w', d')
     \<Longrightarrow> reachable ajv w' (ds[i := d'])"

section \<open>Numbers and dates read from strings\<close>

text \<open>
  \<open>Number(string)\<close> of the host language on byte strings: surrounding white space is
  dropped, the empty string is 0, \<open>Infinity\<close> with an optional sign is infinite, and a
  decimal literal (optional sign, digits with an optional fraction, optional exponent) is
  its value; everything else is \<open>NaN\<close>. Literals with a radix prefix are not represented
  and read as \<open>NaN\<close> here.
\<close>

definition isDigit :: "char \<Rightarrow> bool" where
  "isDigit c = (c \<in> set ''0123456789'')"

definition digitVal :: "char \<Rightarrow> nat" where
  "digitVal c = length (takeWhile (\<lambda>d. d \<noteq> c) ''0123456789'')"

definition natOfDigits :: "string \<Rightarrow> nat" where
  "natOfDigits ds = foldl (\<lambda>a c. 10 * a + digitVal c) 0 ds"








text \<open>
  The pattern \<open>/^\d{4}-\d{2}-\d{2}T\d{2}:\d{2}:\d{2}(\.\d+)?(Z|[+-]\d{2}:\d{2})$/\<close> of
  \<open>transformISOStringsToDate\<close>: \<open>isoFraction\<close> is the text after the seconds with the
  optional fraction removed, \<open>isoZone\<close> recognises the zone designator.
\<close>

definition digitsAt :: "string \<Rightarrow> nat \<Rightarrow> nat \<Rightarrow> bool" where
  "digitsAt s i n = (i + n \<le> length s \<and> list_all isDigit (take n (drop i s)))"

definition isoFraction :: "string \<Rightarrow> string option" where
  "isoFraction r =
     (if r \<noteq> [] \<and> hd r = CHR ''.'' then
        (if takeWhile isDigit (tl r) = [] then None else Some (dropWhile isDigit (tl r)))
      else Some r)"

definition isoZone :: "string \<Rightarrow> bool" where
  "isoZone z =
     (z = ''Z'' \<or>
      (length z = 6 \<and> (z ! 0 = CHR ''+'' \<or> z ! 0 = CHR ''-'') \<and> digitsAt z 1 2
       \<and> z ! 3 = CHR '':'' \<and> digitsAt z 4 2))"

definition isIsoDateString :: "string \<Rightarrow> bool" where
  "isIsoDateString s =
     (19 \<le> length s
      \<and> digitsAt s 0 4 \<and> s ! 4 = CHR ''-'' \<and> digitsAt s 5 2 \<and> s ! 7 = CHR ''-''
      \<and> digitsAt s 8 2 \<and> s ! 10 = CHR ''T'' \<and> digitsAt s 11 2 \<and> s ! 13 = CHR '':''
      \<and> digitsAt s 14 2 \<and> s ! 16 = CHR '':'' \<and> digitsAt s 17 2
      \<and> (case isoFraction (drop 19 s) of None \<Rightarrow> False | Some z \<Rightarrow> isoZone z))"

text \<open>
  \<open>new Date(string)\<close> of the host language, for the strings of the pattern above, which
  is the date-time form whose reading the language defines: the fields must be in range
  (the day within its month), the fraction counts to the millisecond, and the zone offset
  is subtracted. The result is the time value, \<open>None\<close> for an invalid date. Strings of
  any other form read as an invalid date here.
\<close>

definition fieldAt :: "string \<Rightarrow> nat \<Rightarrow> nat \<Rightarrow> int" where
  "fieldAt s i n = int (natOfDigits (take n (drop i s)))"

definition daysInMonth :: "int \<Rightarrow> int \<Rightarrow> int" where
  "daysInMonth y m =
     (if m = 2 then (if y mod 4 = 0 \<and> (y mod 100 \<noteq> 0 \<or> y mod 400 = 0) then 29 else 28)
      else if m = 4 \<or> m = 6 \<or> m = 9 \<or> m = 11 then 30 else 31)"

definition fractionMs :: "string \<Rightarrow> int" where
  "fractionMs r =
     (if r \<noteq> [] \<and> hd r = CHR ''.''
      then int (natOfDigits (take 3 (takeWhile isDigit (tl r) @ ''00'')))
      else 0)"

definition zoneOffsetMs :: "string \<Rightarrow> int option" where
  "zoneOffsetMs z =
     (if z = ''Z'' then Some 0
      else
        (let hh = fieldAt z 1 2; mm = fieldAt z 4 2
         in if hh \<le> 23 \<and> mm \<le> 59
            then Some ((if z ! 0 = CHR ''-'' then - 1 else 1) * (hh * 3600000 + mm * 60000))
            else None))"

definition Date_parse :: "string \<Rightarrow> int option" where
  "Date_parse s =
     (if \<not> isIsoDateString s then None
      else
        (let y = fieldAt s 0 4; mo = fieldAt s 5 2; d = fieldAt s 8 2;
             h = fieldAt s 11 2; mi = fieldAt s 14 2; sec = fieldAt s 17 2;
             ms = fractionMs (drop 19 s)
         in if 1 \<le> mo \<and> mo \<le> 12 \<and> 1 \<le> d \<and> d \<le> daysInMonth y mo
               \<and> (h \<le> 23 \<or> (h = 24 \<and> mi = 0 \<and> sec = 0 \<and> ms = 0)) \<and> mi \<le> 59 \<and> sec \<le> 59
            then
              (case isoFraction (drop 19 s) of
                 None \<Rightarrow> None
               | Some z \<Rightarrow>
                   (case zoneOffsetMs z of
                      None \<Rightarrow> None
                    | Some off \<Rightarrow>
                        Some (daysFromCivil y mo d * 86400000 + h * 3600000 + mi * 60000
                              + sec * 1000 + ms - off)))
            else None))"

section \<open>The parse pipeline\<close>

text \<open>
  \<open>JSON.parse(JSON.stringify(data))\<close>: \<open>toJSONValue\<close> is what the serialisation keeps of
  a value (\<open>None\<close> where it yields no text): a date becomes its ISO string, a number that
  is not finite and an undefined array element become null, and an undefined property
  is dropped. Reading the text back gives that value, and fails when there is no text.
\<close>

fun toJSONValue :: "jv \<Rightarrow> jv option" where
  "toJSONValue JUndefined = None"
| "toJSONValue JNull = Some JNull"
| "toJSONValue (JBool b) = Some (JBool b)"
| "toJSONValue (JNum n) = Some (case n of Fin q \<Rightarrow> JNum (Fin q) | _ \<Rightarrow> JNull)"
| "toJSONValue (JStr s) = Some (JStr s)"
| "toJSONValue (JDate t) =
     Some (case t of None \<Rightarrow> JNull | Some ms \<Rightarrow> JStr (toISOString ms))"
| "toJSONValue (JArr xs) =
     Some (JArr (map (\<lambda>x. case toJSONValue x of None \<Rightarrow> JNull | Some y \<Rightarrow> y) xs))"
| "toJSONValue (JObj kvs) =
     Some (JObj (concat (map (\<lambda>(k, v). case toJSONValue v of
                                         None \<Rightarrow> []
                                       | Some y \<Rightarrow> [(k, y)]) kvs)))"

definition jsonCopy :: "jv \<Rightarrow> error + jv" where
  "jsonCopy data =
     (case toJSONValue data of
        None \<Rightarrow> Inl (SyntaxError ''\"undefined\" is not valid JSON'')
      | Some c \<Rightarrow> Inr c)"

fun isArray :: "jv \<Rightarrow> bool" where
  "isArray (JArr xs) = True"
| "isArray _ = False"

definition itemSchemaOf :: "jv \<Rightarrow> jv" where
  "itemSchemaOf schema =
     (if truthy (getp schema ''items'') \<and> \<not> isArray (getp schema ''items'')
      then getp schema ''items'' else JUndefined)"

definition schemaTypeList :: "jv \<Rightarrow> jv list" where
  "schemaTypeList schema =
     (if isArray (getp schema ''type'') then elems (getp schema ''type'')
      else [getp schema ''type''])"


definition isDateTimeField :: "jv \<Rightarrow> bool" where
  "isDateTimeField schema =
     (truthy schema
      \<and> (getp schema ''type'' = JStr ''string''
         \<or> (isArray (getp schema ''type'') \<and> JStr ''string'' \<in> set (elems (getp schema ''type''))))
      \<and> getp schema ''format'' = JStr ''date-time'')"

fun transformISOStringsToDate :: "jv \<Rightarrow> jv \<Rightarrow> jv" where
  "transformISOStringsToDate JUndefined schema = JUndefined"
| "transformISOStringsToDate JNull schema = JNull"
| "transformISOStringsToDate (JDate t) schema = JDate t"
| "transformISOStringsToDate (JStr s) schema =
     (if isDateTimeField schema \<or> isIsoDateString s then
        (case Date_parse s of
           Some t \<Rightarrow> JDate (Some t)
         | None \<Rightarrow> JStr s)
      else JStr s)"
| "transformISOStringsToDate (JArr xs) schema =
     JArr (map (\<lambda>item. transformISOStringsToDate item
                  (if truthy (itemSchemaOf schema) then itemSchemaOf schema else JObj [])) xs)"
| "transformISOStringsToDate (JObj kvs) schema =
     JObj (map (\<lambda>(key, v).
             (key, transformISOStringsToDate v (getp (getp schema ''properties'') key))) kvs)"
| "transformISOStringsToDate (JBool b) schema = JBool b"
| "transformISOStringsToDate (JNum n) schema = JNum n"


definition parseList ::
  "engine \<Rightarrow> world \<Rightarrow> SchemaBuilder \<Rightarrow> jv list \<Rightarrow> (error + jv list) \<times> world \<times> SchemaBuilder" where
  "parseList ajv w d dataList =
     (case jsonCopy (JArr dataList) of
        Inl e \<Rightarrow> (Inl e, w, d)
      | Inr dataCopy \<Rightarrow>
          (case validateList ajv w d (elems dataCopy) of
             (Inl e, w', d') \<Rightarrow> (Inl e, w', d')
           | (Inr u, w', d') \<Rightarrow>
               (Inr (map (\<lambda>item. transformISOStringsToDate item (schemaObject d))
                       (elems dataCopy)), w', d')))"

section \<open>Shape predicates and constructors\<close>

definition hasType :: "jv \<Rightarrow> string \<Rightarrow> bool" where
  "hasType s ty =
     (truthy s
      \<and> (if isArray (getp s ''type'') then JStr ty \<in> set (elems (getp s ''type''))
         else getp s ''type'' = JStr ty))"

definition isObjectSchema :: "jv \<Rightarrow> bool" where
  "isObjectSchema s = (hasType s ''object'' \<or> (\<not> hasKey s ''type'' \<and> hasKey s ''properties''))"

definition hasAdditionalProperties :: "jv \<Rightarrow> bool" where
  "hasAdditionalProperties s =
     (isObjectSchema s \<and> getp s ''additionalProperties'' \<noteq> JBool False)"

definition hasSchemasCombinationKeywords :: "jv \<Rightarrow> bool" where
  "hasSchemasCombinationKeywords s =
     (hasKey s ''oneOf'' \<or> hasKey s ''allOf'' \<or> hasKey s ''anyOf'' \<or> hasKey s ''not'')"

definition isSimpleObjectSchema :: "jv \<Rightarrow> bool" where
  "isSimpleObjectSchema s =
     (isObjectSchema s \<and> \<not> hasAdditionalProperties s \<and> \<not> hasSchemasCombinationKeywords s)"

text \<open>\<open>x || {}\<close> and \<open>x || []\<close>.\<close>

definition orEmptyObject :: "jv \<Rightarrow> jv" where
  "orEmptyObject x = (if truthy x then x else JObj [])"

definition orEmptyArray :: "jv \<Rightarrow> jv" where
  "orEmptyArray x = (if truthy x then x else JArr [])"

text \<open>
  The title in an error message, \<open>schemaObject.title || "this"\<close>; the title is a string by
  its declared type. \<open>quoted\<close> puts a name between apostrophes.
\<close>

definition titleOrThis :: "jv \<Rightarrow> string" where
  "titleOrThis s =
     (case getp s ''title'' of JStr t \<Rightarrow> (if t = [] then ''this'' else t) | _ \<Rightarrow> ''this'')"

definition quoted :: "string \<Rightarrow> string" where
  "quoted name = [CHR 0x27] @ name @ [CHR 0x27]"

definition typeOrNullable :: "string \<Rightarrow> bool \<Rightarrow> jv" where
  "typeOrNullable ty nullable = (if nullable then JArr [JStr ty, JStr ''null''] else JStr ty)"

definition emptySchema :: "jv \<Rightarrow> bool \<Rightarrow> error + SchemaBuilder" where
  "emptySchema schema nullable =
     newSchemaBuilder
       (setp (setp (cloneJSON schema) ''type'' (typeOrNullable ''object'' nullable))
          ''additionalProperties'' (JBool False))
       None"

definition stringSchema :: "jv \<Rightarrow> bool \<Rightarrow> error + SchemaBuilder" where
  "stringSchema schema nullable =
     newSchemaBuilder (setp (cloneJSON schema) ''type'' (typeOrNullable ''string'' nullable)) None"

definition numberSchema :: "jv \<Rightarrow> bool \<Rightarrow> error + SchemaBuilder" where
  "numberSchema schema nullable =
     newSchemaBuilder (setp (cloneJSON schema) ''type'' (typeOrNullable ''number'' nullable)) None"

definition integerSchema :: "jv \<Rightarrow> bool \<Rightarrow> error + SchemaBuilder" where
  "integerSchema schema nullable =
     newSchemaBuilder (setp (cloneJSON schema) ''type'' (typeOrNullable ''integer'' nullable)) None"

definition dateSchema :: "jv \<Rightarrow> bool \<Rightarrow> error + SchemaBuilder" where
  "dateSchema schema nullable =
     newSchemaBuilder
       (setp (setp (cloneJSON schema) ''type'' (typeOrNullable ''string'' nullable))
          ''format'' (JStr ''date-time''))
       None"

section \<open>Structural transformations\<close>

text \<open>
  Each operation works on a copy of the receiver's schema and ends in the constructor.
  \<open>isRequired\<close> is \<open>None\<close> when the argument is left out.
\<close>

definition pushRequired :: "jv \<Rightarrow> string \<Rightarrow> jv" where
  "pushRequired s name =
     setp s ''required'' (JArr (elems (orEmptyArray (getp s ''required'')) @ [JStr name]))"

definition addProperty ::
  "SchemaBuilder \<Rightarrow> string \<Rightarrow> SchemaBuilder \<Rightarrow> bool option \<Rightarrow> error + SchemaBuilder" where
  "addProperty d propertyName schemaBuilder isRequired =
     (if \<not> isObjectSchema (schemaObject d) then
        Inl (VError ''Schema Builder Error: you can only add properties to an object schema'')
      else
        (let s0 = cloneJSON (schemaObject d);
             s1 = setp s0 ''properties'' (orEmptyObject (getp s0 ''properties''))
         in if hasKey (getp s1 ''properties'') propertyName then
              Inl (VError (''Schema Builder Error: '' @ quoted propertyName
                           @ '' already exists in '' @ titleOrThis s1 @ '' schema''))
            else
              (let s2 = setp s1 ''properties''
                          (setp (getp s1 ''properties'') propertyName
                             (cloneJSON (schemaObject schemaBuilder)));
                   s3 = (if isRequired = Some True \<or> isRequired = None
                         then pushRequired s2 propertyName else s2)
               in newSchemaBuilder s3 (validationConfig d))))"

definition addString ::
  "SchemaBuilder \<Rightarrow> string \<Rightarrow> jv \<Rightarrow> bool option \<Rightarrow> bool \<Rightarrow> error + SchemaBuilder" where
  "addString d propertyName schema isRequired nullable =
     (case stringSchema schema nullable of
        Inl e \<Rightarrow> Inl e
      | Inr sb \<Rightarrow> addProperty d propertyName sb isRequired)"

definition addInteger ::
  "SchemaBuilder \<Rightarrow> string \<Rightarrow> jv \<Rightarrow> bool option \<Rightarrow> bool \<Rightarrow> error + SchemaBuilder" where
  "addInteger d propertyName schema isRequired nullable =
     (case integerSchema schema nullable of
        Inl e \<Rightarrow> Inl e
      | Inr sb \<Rightarrow> addProperty d propertyName sb isRequired)"

definition addDate ::
  "SchemaBuilder \<Rightarrow> string \<Rightarrow> jv \<Rightarrow> bool option \<Rightarrow> bool \<Rightarrow> error + SchemaBuilder" where
  "addDate d propertyName schema isRequired nullable =
     (case dateSchema schema nullable of
        Inl e \<Rightarrow> Inl e
      | Inr sb \<Rightarrow> addProperty d propertyName sb isRequired)"

definition simpleSchemaError :: "string \<Rightarrow> error" where
  "simpleSchemaError opName =
     VError (''Schema Builder Error: '' @ quoted opName
             @ '' can only be used with a simple object schema (no additionalProperties, oneOf, anyOf, allOf or not)'')"

definition getSubschema :: "SchemaBuilder \<Rightarrow> string \<Rightarrow> error + SchemaBuilder" where
  "getSubschema d propertyName =
     (if \<not> isSimpleObjectSchema (schemaObject d) \<or> \<not> truthy (schemaObject d)
         \<or> (case schemaObject d of JBool b \<Rightarrow> True | _ \<Rightarrow> False)
         \<or> \<not> truthy (getp (schemaObject d) ''properties'')
      then Inl (simpleSchemaError ''getSubschema'')
      else newSchemaBuilder (getp (getp (schemaObject d) ''properties'') propertyName) None)"

text \<open>
  The second argument of \<open>replaceProperty\<close> is a document or a function from the old
  sub-document to the new one.
\<close>

definition replaceProperty ::
  "SchemaBuilder \<Rightarrow> string \<Rightarrow> SchemaBuilder + (SchemaBuilder \<Rightarrow> error + SchemaBuilder)
     \<Rightarrow> bool option \<Rightarrow> error + SchemaBuilder" where
  "replaceProperty d propertyName schemaBuilderResolver isRequired =
     (if \<not> isObjectSchema (schemaObject d) then
        Inl (VError ''Schema Builder Error: you can only replace properties of an object schema'')
      else
        (let s0 = cloneJSON (schemaObject d);
             s1 = setp s0 ''properties'' (orEmptyObject (getp s0 ''properties''));
             s2 = (if truthy (getp s1 ''required'')
                   then setp s1 ''required''
                          (JArr (filter (\<lambda>p. p \<noteq> JStr propertyName) (elems (getp s1 ''required''))))
                   else s1);
             resolved = (case schemaBuilderResolver of
                           Inl sb \<Rightarrow> Inr sb
                         | Inr f \<Rightarrow> (case getSubschema d propertyName of
                                       Inl e \<Rightarrow> Inl e
                                     | Inr sub \<Rightarrow> f sub))
         in case resolved of
              Inl e \<Rightarrow> Inl e
            | Inr schemaBuilder \<Rightarrow>
                (let s3 = setp s2 ''properties''
                            (setp (getp s2 ''properties'') propertyName
                               (cloneJSON (schemaObject schemaBuilder)));
                     s4 = (if isRequired = Some True \<or> isRequired = None
                           then pushRequired s3 propertyName else s3)
                 in newSchemaBuilder s4 (validationConfig d))))"

text \<open>\<open>splice(indexOf(x), 1)\<close> removes the first occurrence of an element.\<close>

definition renameProperty :: "SchemaBuilder \<Rightarrow> string \<Rightarrow> string \<Rightarrow> error + SchemaBuilder" where
  "renameProperty d propertyName newPropertyName =
     (if \<not> isSimpleObjectSchema (schemaObject d) then Inl (simpleSchemaError ''renameProperty'')
      else
        (let s0 = cloneJSON (schemaObject d);
             s1 = setp s0 ''properties'' (orEmptyObject (getp s0 ''properties''));
             s2 = (if hasKey (getp s1 ''properties'') propertyName then
                     (let props = delp (setp (getp s1 ''properties'') newPropertyName
                                          (getp (getp s1 ''properties'') propertyName))
                                    propertyName;
                          s1' = setp s1 ''properties'' props
                      in if truthy (getp s1' ''required'')
                            \<and> JStr propertyName \<in> set (elems (getp s1' ''required''))
                         then setp s1' ''required''
                                (JArr (remove1 (JStr propertyName) (elems (getp s1' ''required''))
                                       @ [JStr newPropertyName]))
                         else s1')
                   else s1)
         in newSchemaBuilder s2 (validationConfig d)))"

definition addAdditionalProperties ::
  "SchemaBuilder \<Rightarrow> SchemaBuilder option \<Rightarrow> error + SchemaBuilder" where
  "addAdditionalProperties d schemaBuilder =
     (if truthy (getp (schemaObject d) ''additionalProperties'') then
        Inl (VError (''Schema Builder Error: additionalProperties is already set in ''
                     @ titleOrThis (schemaObject d) @ '' schema.''))
      else
        (let s0 = cloneJSON (schemaObject d);
             s1 = setp s0 ''additionalProperties''
                    (case schemaBuilder of
                       Some sb \<Rightarrow> cloneJSON (schemaObject sb)
                     | None \<Rightarrow> JBool True)
         in newSchemaBuilder s1 (validationConfig d)))"

definition pickProperties :: "SchemaBuilder \<Rightarrow> string list \<Rightarrow> error + SchemaBuilder" where
  "pickProperties d properties =
     (if \<not> isObjectSchema (schemaObject d) \<or> hasSchemasCombinationKeywords (schemaObject d) then
        Inl (VError (''Schema Builder Error: '' @ quoted ''pickProperties''
                     @ '' can only be used with a simple object schema (no oneOf, anyOf, allOf or not)''))
      else
        (let s0 = cloneJSON (schemaObject d);
             s1 = setp s0 ''properties'' (orEmptyObject (getp s0 ''properties''));
             propertiesMap = fold (\<lambda>property m. setp m property
                                      (getp (getp s1 ''properties'') property))
                               properties (JObj []);
             s2 = setp s1 ''properties'' propertiesMap;
             s3 = (if truthy (getp s2 ''required'')
                   then setp s2 ''required''
                          (JArr (filter (\<lambda>r. r \<in> set (map JStr properties))
                                   (elems (getp s2 ''required''))))
                   else s2);
             s4 = (if isArray (getp s3 ''required'') \<and> elems (getp s3 ''required'') = []
                   then delp s3 ''required'' else s3);
             s5 = setp s4 ''additionalProperties'' (JBool False)
         in newSchemaBuilder s5 (validationConfig d)))"

definition omitProperties :: "SchemaBuilder \<Rightarrow> string list \<Rightarrow> error + SchemaBuilder" where
  "omitProperties d properties =
     (if \<not> isSimpleObjectSchema (schemaObject d) then Inl (simpleSchemaError ''omitProperties'')
      else
        (let p = filter (\<lambda>k. k \<notin> set properties)
                   (keysOf (orEmptyObject (getp (schemaObject d) ''properties'')))
         in pickProperties d p))"

text \<open>
  One turn of the loop of \<open>mergeProperties\<close> over the property names of the other
  schema: \<open>s2\<close> is the copy of the other schema, \<open>s1\<close> the copy of the receiver's being
  rewritten.
\<close>

definition isRequiredIn :: "jv \<Rightarrow> string \<Rightarrow> bool" where
  "isRequiredIn s name =
     (truthy (getp s ''required'') \<and> JStr name \<in> set (elems (getp s ''required'')))"



section \<open>The caller's store\<close>





fun mapAccum :: "('s \<Rightarrow> 'a \<Rightarrow> 'b \<times> 's) \<Rightarrow> 's \<Rightarrow> 'a list \<Rightarrow> 'b list \<times> 's" where
  "mapAccum f s [] = ([], s)"
| "mapAccum f s (x # xs) =
     (let (y, s1) = f s x; (ys, s2) = mapAccum f s1 xs in (y # ys, s2))"

lemma mapAccum_cong [fundef_cong]:
  "xs = ys \<Longrightarrow> s = t \<Longrightarrow> (\<And>u x. x \<in> set ys \<Longrightarrow> f u x = g u x)
     \<Longrightarrow> mapAccum f s xs = mapAccum g t ys"
  by (induction ys arbitrary: xs s t) (auto simp: Let_def split: prod.splits)








section \<open>Auxiliary notions of the verification\<close>


text \<open>
  The meaning of the type names of a schema, and a small engine that checks only the
  types of a datum and of its properties and the least length of an array. It stands in
  for the external engine where a statement is exercised on concrete data.
\<close>

definition isFraction :: "jv \<Rightarrow> bool" where
  "isFraction x = (case x of JNum (Fin q) \<Rightarrow> of_int \<lfloor>q\<rfloor> \<noteq> q | _ \<Rightarrow> False)"

definition hasJsonType :: "jv \<Rightarrow> jv \<Rightarrow> bool" where
  "hasJsonType ty x =
     (case x of
        JNull \<Rightarrow> ty = JStr ''null''
      | JBool b \<Rightarrow> ty = JStr ''boolean''
      | JNum n \<Rightarrow> (case n of Fin q \<Rightarrow> ty = JStr ''number'' \<or> (ty = JStr ''integer'' \<and> of_int \<lfloor>q\<rfloor> = q)
                   | _ \<Rightarrow> False)
      | JStr s \<Rightarrow> ty = JStr ''string''
      | JArr xs \<Rightarrow> ty = JStr ''array''
      | JObj kvs \<Rightarrow> ty = JStr ''object''
      | _ \<Rightarrow> False)"

definition typeViolations :: "jv \<Rightarrow> string \<Rightarrow> jv \<Rightarrow> violation list" where
  "typeViolations s path x =
     (if hasKey s ''type'' \<and> \<not> list_ex (\<lambda>ty. hasJsonType ty x) (schemaTypeList s)
      then [(path, ''has the wrong type'')] else [])"

definition minItemsViolations :: "jv \<Rightarrow> jv \<Rightarrow> violation list" where
  "minItemsViolations s x =
     (case (getp s ''minItems'', x) of
        (JNum (Fin n), JArr xs) \<Rightarrow>
          (if of_nat (length xs) < n then [([], ''must NOT have fewer items'')] else [])
      | _ \<Rightarrow> [])"

definition sampleEngine :: engine where
  "sampleEngine cfg reg s x =
     typeViolations s [] x @ minItemsViolations s x
     @ concat (map (\<lambda>(k, v). typeViolations (getp (getp s ''properties'') k) (CHR ''/'' # k) v)
                 (case x of JObj kvs \<Rightarrow> kvs | _ \<Rightarrow> []))"

definition stringDocument :: SchemaBuilder where
  "stringDocument =
     \<lparr> schemaObject = JObj [(''type'', JStr ''string'')], validationConfig = None,
       validationFunction = None, localValidationFunctionVersionNumber = 0,
       listValidationFunction = None, localListValidationFunctionVersionNumber = 0 \<rparr>"

text \<open>Documents and messages used in the statements below.\<close>

definition propertiesOf :: "jv \<Rightarrow> jv" where
  "propertiesOf s = orEmptyObject (getp s ''properties'')"

definition alreadySetError :: "SchemaBuilder \<Rightarrow> error" where
  "alreadySetError d =
     VError (''Schema Builder Error: additionalProperties is already set in ''
             @ titleOrThis (schemaObject d) @ '' schema.'')"

definition documentOf :: "jv \<Rightarrow> SchemaBuilder" where
  "documentOf s =
     \<lparr> schemaObject = s, validationConfig = None,
       validationFunction = None, localValidationFunctionVersionNumber = 0,
       listValidationFunction = None, localListValidationFunctionVersionNumber = 0 \<rparr>"

definition emptyDocument :: SchemaBuilder where
  "emptyDocument =
     documentOf (JObj [(''type'', JStr ''object''), (''additionalProperties'', JBool False)])"

definition openDocument :: SchemaBuilder where
  "openDocument =
     documentOf (JObj [(''type'', JStr ''object''), (''additionalProperties'', JBool True)])"

definition documentSB :: SchemaBuilder where
  "documentSB =
     documentOf (JObj [(''type'', JStr ''object''), (''additionalProperties'', JBool False),
                       (''properties'', JObj [(''s'', JObj [(''type'', JStr ''string'')]),
                                              (''b'', JObj [(''type'', JStr ''boolean'')])]),
                       (''required'', JArr [JStr ''s''])])"

definition documentB :: SchemaBuilder where
  "documentB =
     documentOf (JObj [(''type'', JStr ''object''), (''additionalProperties'', JBool False),
                       (''properties'', JObj [(''b'', JObj [(''type'', JStr ''boolean'')])])])"

definition documentA :: SchemaBuilder where
  "documentA =
     documentOf (JObj [(''type'', JStr ''object''), (''additionalProperties'', JBool False),
                       (''properties'', JObj [(''a'', JObj [(''type'', JStr ''string'')])]),
                       (''required'', JArr [JStr ''a''])])"

definition documentAB :: SchemaBuilder where
  "documentAB =
     documentOf (JObj [(''type'', JStr ''object''), (''additionalProperties'', JBool False),
                       (''properties'', JObj [(''a'', JObj [(''type'', JStr ''string'')]),
                                              (''b'', JObj [(''type'', JStr ''string'')])]),
                       (''required'', JArr [JStr ''a'', JStr ''b''])])"



text \<open>
  A compiled function in a document's cache was compiled from the document's own schema:
  the single form from the schema itself, the list form from the wrapper with the schema
  registered under its name.
\<close>

fun compiledFrom :: "validateFunction \<Rightarrow> (string \<times> jv) list \<times> jv" where
  "compiledFrom (Compiled cfg reg s) = (reg, s)"

definition cachedForOwnSchema :: "SchemaBuilder \<Rightarrow> bool" where
  "cachedForOwnSchema d \<longleftrightarrow>
     (validationFunction d = None
      \<or> map_option compiledFrom (validationFunction d) = Some ([], schemaObject d))
     \<and> (listValidationFunction d = None
        \<or> map_option compiledFrom (listValidationFunction d)
            = Some ([(''schema'', schemaObject d)], listSchema))"

text \<open>
  Two rules of the schema language that the external engine is relied on for, under every
  configuration. An array schema with a least number of items of one or more reports a
  violation for the empty array. An object whose property holds a number that is not
  integral, under a schema whose node for that property lists only \<open>integer\<close> and \<open>null\<close>
  as types, is reported.
\<close>

definition enforcesMinItems :: "engine \<Rightarrow> bool" where
  "enforcesMinItems ajv \<longleftrightarrow>
     (\<forall>cfg reg s n. getp s ''type'' = JStr ''array'' \<and> getp s ''minItems'' = JNum (Fin n) \<and> 1 \<le> n
        \<longrightarrow> ajv cfg reg s (JArr []) \<noteq> [])"















section \<open>Verification\<close>

subsection \<open>Helper lemmas: configuration and cache\<close>





lemma validate_steps:
  "validate ajv w d x = (r, w', d') \<Longrightarrow>
     (w' = w \<and> d' = d) \<or> cacheValidationFunction w d = (w', d')"
  by (auto simp: validate_def Let_def split: sum.splits prod.splits option.splits if_splits)

lemma validateList_steps:
  "validateList ajv w d xs = (r, w', d') \<Longrightarrow>
     (w' = w \<and> d' = d) \<or> cacheListValidationFunction w d = (w', d')"
  by (auto simp: validateList_def Let_def split: sum.splits prod.splits option.splits if_splits)



subsection \<open>C1: the cache protocol\<close>



subsection \<open>Helper lemmas: objects\<close>

lemma getp_update:
  "getp (JObj (AList.update k v kvs)) n = (if n = k then v else getp (JObj kvs) n)"
  by (simp add: update_conv')

lemma getp_delete:
  "getp (JObj (AList.delete k kvs)) n = (if n = k then JUndefined else getp (JObj kvs) n)"
  by (simp add: delete_conv')

lemma hasKey_update:
  "hasKey (JObj (AList.update k v kvs)) n = (n = k \<or> hasKey (JObj kvs) n)"
  by (simp add: update_conv')

lemma hasKey_delete:
  "hasKey (JObj (AList.delete k kvs)) n = (n \<noteq> k \<and> hasKey (JObj kvs) n)"
  by (simp add: delete_conv')

lemma isObjectSchema_object: "isObjectSchema s \<Longrightarrow> \<exists>kvs. s = JObj kvs"
  by (cases s) (auto simp: isObjectSchema_def hasType_def)

lemma update_fresh: "k \<notin> fst ` set acc \<Longrightarrow> AList.update k v acc = acc @ [(k, v)]"
  by (induction acc) auto

lemma map_of_tabulate:
  "map_of (map (\<lambda>p. (p, f p)) L) k = (if k \<in> set L then Some (f k) else None)"
  by (induction L) auto

lemma containsRef_update_additionalProperties:
  assumes "\<not> containsRef (JObj kvs)" "\<not> containsRef v"
  shows "\<not> containsRef (JObj (AList.update ''additionalProperties'' v kvs))"
proof -
  from assms(1) have a: "\<not> hasKey (JObj kvs) ''$ref''"
    "\<not> list_ex containsRef (schemaChildren (JObj kvs))"
    by (simp_all add: containsRef.simps [of "JObj kvs"])
  have "\<not> list_ex containsRef
          (schemaChildren (JObj (AList.update ''additionalProperties'' v kvs)))"
    using a(2) assms(2) unfolding schemaChildren.simps getp_update
    by (simp del: getp.simps add: list_ex_iff)
  with a(1) show ?thesis
    by (simp add: containsRef.simps [of "JObj (AList.update ''additionalProperties'' v kvs)"]
        hasKey_update del: hasKey.simps)
qed

subsection \<open>C6: addAdditionalProperties\<close>

text \<open>
  Claim C6, as stated, counts \<open>additionalProperties\<close> as already set whenever it has a
  value. The document of \<open>emptySchema()\<close> has the value \<open>false\<close> there, and
  \<open>addAdditionalProperties\<close> on it does not raise: it returns the document with
  \<open>additionalProperties\<close> set to \<open>true\<close>.
\<close>

theorem addAdditionalProperties_after_emptySchema:
  "emptySchema (JObj []) False = Inr emptyDocument
   \<and> hasKey (schemaObject emptyDocument) ''additionalProperties''
   \<and> getp (schemaObject emptyDocument) ''additionalProperties'' = JBool False
   \<and> addAdditionalProperties emptyDocument None = Inr openDocument"
  by (simp add: emptySchema_def emptyDocument_def openDocument_def documentOf_def
      addAdditionalProperties_def newSchemaBuilder_def cloneJSON_def typeOrNullable_def
      containsRef.simps Let_def)

text \<open>
  Claim C6, amended. \<open>addAdditionalProperties\<close> raises its error exactly when the
  receiver's \<open>additionalProperties\<close> is truthy, that is \<open>true\<close> or a sub-document; the
  value \<open>false\<close> and an absent keyword do not count as set. When it does not raise, on a
  document and an optional sub-document without references, it returns a document whose
  \<open>additionalProperties\<close> is the sub-document's schema, or \<open>true\<close> when none is given,
  with every other keyword and the validation configuration as in the receiver.
\<close>

theorem addAdditionalProperties_raises_iff_truthy:
  "(truthy (getp (schemaObject d) ''additionalProperties'')
      \<longrightarrow> addAdditionalProperties d sb = Inl (alreadySetError d))
   \<and> (\<not> truthy (getp (schemaObject d) ''additionalProperties'')
      \<longrightarrow> addAdditionalProperties d sb \<noteq> Inl (alreadySetError d))
   \<and> (\<not> truthy (getp (schemaObject d) ''additionalProperties'')
        \<and> schemaObject d = JObj kvs \<and> \<not> containsRef (schemaObject d)
        \<and> (\<forall>b. sb = Some b \<longrightarrow> \<not> containsRef (schemaObject b))
      \<longrightarrow> (\<exists>r. addAdditionalProperties d sb = Inr r
               \<and> getp (schemaObject r) ''additionalProperties''
                   = (case sb of Some b \<Rightarrow> schemaObject b | None \<Rightarrow> JBool True)
               \<and> (\<forall>k. k \<noteq> ''additionalProperties''
                      \<longrightarrow> getp (schemaObject r) k = getp (schemaObject d) k)
               \<and> validationConfig r = validationConfig d))"
proof (intro conjI impI)
  assume "truthy (getp (schemaObject d) ''additionalProperties'')"
  then show "addAdditionalProperties d sb = Inl (alreadySetError d)"
    by (simp add: addAdditionalProperties_def alreadySetError_def)
next
  assume "\<not> truthy (getp (schemaObject d) ''additionalProperties'')"
  then show "addAdditionalProperties d sb \<noteq> Inl (alreadySetError d)"
    by (simp add: addAdditionalProperties_def alreadySetError_def newSchemaBuilder_def Let_def)
next
  assume a: "\<not> truthy (getp (schemaObject d) ''additionalProperties'')
        \<and> schemaObject d = JObj kvs \<and> \<not> containsRef (schemaObject d)
        \<and> (\<forall>b. sb = Some b \<longrightarrow> \<not> containsRef (schemaObject b))"
  let ?v = "case sb of Some b \<Rightarrow> schemaObject b | None \<Rightarrow> JBool True"
  have "\<not> containsRef ?v"
    using a by (cases sb) (simp_all add: containsRef.simps [of "JBool True"])
  moreover from a have "\<not> containsRef (JObj kvs)" by auto
  ultimately have c: "\<not> containsRef (JObj (AList.update ''additionalProperties'' ?v kvs))"
    by (rule containsRef_update_additionalProperties [rotated])
  from a have s: "schemaObject d = JObj kvs" by simp
  show "\<exists>r. addAdditionalProperties d sb = Inr r
               \<and> getp (schemaObject r) ''additionalProperties''
                   = (case sb of Some b \<Rightarrow> schemaObject b | None \<Rightarrow> JBool True)
               \<and> (\<forall>k. k \<noteq> ''additionalProperties''
                      \<longrightarrow> getp (schemaObject r) k = getp (schemaObject d) k)
               \<and> validationConfig r = validationConfig d"
    using a c
    by (cases sb)
      (simp_all add: addAdditionalProperties_def newSchemaBuilder_def Let_def cloneJSON_def s
        getp_update del: getp.simps)
qed

text \<open>
  The theorem at the scenario of the specification: the first call on the empty object
  schema returns, the second call, on its result, raises.
\<close>

theorem addAdditionalProperties_raises_iff_truthy_witness:
  "\<not> truthy (getp (schemaObject emptyDocument) ''additionalProperties'')
   \<and> addAdditionalProperties emptyDocument None \<noteq> Inl (alreadySetError emptyDocument)
   \<and> truthy (getp (schemaObject openDocument) ''additionalProperties'')
   \<and> addAdditionalProperties openDocument None = Inl (alreadySetError openDocument)"
  using addAdditionalProperties_raises_iff_truthy [of openDocument None]
    addAdditionalProperties_raises_iff_truthy [of emptyDocument None]
  by (simp add: emptyDocument_def openDocument_def documentOf_def)

subsection \<open>C9: omitProperties\<close>

lemma fold_setp_distinct:
  "distinct L \<Longrightarrow> set L \<inter> fst ` set acc = {} \<Longrightarrow>
     fold (\<lambda>p m. setp m p (f p)) L (JObj acc) = JObj (acc @ map (\<lambda>p. (p, f p)) L)"
proof (induction L arbitrary: acc)
  case Nil
  then show ?case by simp
next
  case (Cons a L)
  then have "a \<notin> fst ` set acc" by auto
  then have u: "AList.update a (f a) acc = acc @ [(a, f a)]" by (rule update_fresh)
  from Cons.prems have "set L \<inter> fst ` set (acc @ [(a, f a)]) = {}" by auto
  with Cons have "fold (\<lambda>p m. setp m p (f p)) L (JObj (acc @ [(a, f a)]))
      = JObj ((acc @ [(a, f a)]) @ map (\<lambda>p. (p, f p)) L)"
    by (intro Cons.IH) auto
  with u show ?case by simp
qed

lemma pickProperties_schema:
  assumes "schemaObject d = JObj kvs" "distinct L" "pickProperties d L = Inr r"
  shows "schemaObject r =
      JObj (AList.update ''additionalProperties'' (JBool False)
        (let s2 = AList.update ''properties''
                    (JObj (map (\<lambda>p. (p, getp (orEmptyObject (getp (JObj kvs) ''properties'')) p)) L))
                    kvs in
         if truthy (getp (JObj s2) ''required'') then
           (if filter (\<lambda>r. r \<in> set (map JStr L)) (elems (getp (JObj s2) ''required'')) = []
            then AList.delete ''required''
                   (AList.update ''required'' (JArr []) s2)
            else AList.update ''required''
                   (JArr (filter (\<lambda>r. r \<in> set (map JStr L)) (elems (getp (JObj s2) ''required''))))
                   s2)
         else (if isArray (getp (JObj s2) ''required'') \<and> elems (getp (JObj s2) ''required'') = []
               then AList.delete ''required'' s2 else s2)))"
proof -
  let ?props = "orEmptyObject (getp (JObj kvs) ''properties'')"
  have f: "fold (\<lambda>p m. setp m p (getp ?props p)) L (JObj [])
            = JObj (map (\<lambda>p. (p, getp ?props p)) L)"
    using fold_setp_distinct [OF assms(2), of "[]" "getp ?props"] by simp
  from assms(3) show ?thesis
    by (auto simp: pickProperties_def Let_def cloneJSON_def assms(1) getp_update getp_delete f
        newSchemaBuilder_def simp del: getp.simps split: if_splits)
qed

lemma pickProperties_result:
  assumes "schemaObject d = JObj kvs" "distinct L" "pickProperties d L = Inr r"
  shows "getp (schemaObject r) ''properties''
           = JObj (map (\<lambda>p. (p, getp (orEmptyObject (getp (JObj kvs) ''properties'')) p)) L)"
    and "getp (schemaObject r) ''additionalProperties'' = JBool False"
    and "isRequiredIn (schemaObject r) k \<longleftrightarrow> isRequiredIn (JObj kvs) k \<and> k \<in> set L"
proof -
  note s = pickProperties_schema [OF assms]
  show "getp (schemaObject r) ''properties''
           = JObj (map (\<lambda>p. (p, getp (orEmptyObject (getp (JObj kvs) ''properties'')) p)) L)"
    and "getp (schemaObject r) ''additionalProperties'' = JBool False"
    unfolding s by (simp_all add: Let_def getp_update getp_delete del: getp.simps)
  have "JStr k \<in> JStr ` set L \<longleftrightarrow> k \<in> set L" by auto
  then show "isRequiredIn (schemaObject r) k \<longleftrightarrow> isRequiredIn (JObj kvs) k \<and> k \<in> set L"
    unfolding s isRequiredIn_def
    by (auto simp: Let_def getp_update getp_delete filter_empty_conv simp del: getp.simps)
qed

text \<open>
  Claim C9. For a simple object schema \<open>D\<close> and names \<open>K\<close>, \<open>D.omitProperties(K)\<close> is
  \<open>D.pickProperties\<close> of the property names of \<open>D\<close> that are not in \<open>K\<close>, taken in the
  order of \<open>D\<close>'s properties: the same document, or the same error. So the result has
  exactly those properties, each with the sub-document it has in \<open>D\<close>; a name is
  required in it exactly when it is required in \<open>D\<close> and kept; and
  \<open>additionalProperties\<close> is \<open>false\<close>.
\<close>

theorem omitProperties_is_pickProperties_of_complement:
  assumes "isSimpleObjectSchema (schemaObject d)"
  shows "omitProperties d K
           = pickProperties d (filter (\<lambda>k. k \<notin> set K) (keysOf (propertiesOf (schemaObject d))))
       \<and> (distinct (keysOf (propertiesOf (schemaObject d))) \<and> omitProperties d K = Inr r \<longrightarrow>
            keysOf (getp (schemaObject r) ''properties'')
              = filter (\<lambda>k. k \<notin> set K) (keysOf (propertiesOf (schemaObject d)))
            \<and> (\<forall>k \<in> set (keysOf (propertiesOf (schemaObject d))) - set K.
                  getp (getp (schemaObject r) ''properties'') k
                    = getp (propertiesOf (schemaObject d)) k)
            \<and> (\<forall>k. isRequiredIn (schemaObject r) k \<longleftrightarrow>
                  isRequiredIn (schemaObject d) k
                  \<and> k \<in> set (keysOf (propertiesOf (schemaObject d))) - set K)
            \<and> getp (schemaObject r) ''additionalProperties'' = JBool False)"
proof -
  let ?P = "keysOf (propertiesOf (schemaObject d))"
  let ?L = "filter (\<lambda>k. k \<notin> set K) ?P"
  from assms obtain kvs where o: "schemaObject d = JObj kvs"
    using isObjectSchema_object by (auto simp: isSimpleObjectSchema_def)
  have e: "omitProperties d K = pickProperties d ?L"
    using assms by (simp add: omitProperties_def propertiesOf_def)
  have "keysOf (getp (schemaObject r) ''properties'') = ?L
            \<and> (\<forall>k \<in> set ?P - set K.
                  getp (getp (schemaObject r) ''properties'') k
                    = getp (propertiesOf (schemaObject d)) k)
            \<and> (\<forall>k. isRequiredIn (schemaObject r) k \<longleftrightarrow>
                  isRequiredIn (schemaObject d) k \<and> k \<in> set ?P - set K)
            \<and> getp (schemaObject r) ''additionalProperties'' = JBool False"
    if d: "distinct ?P" and r: "omitProperties d K = Inr r"
  proof -
    from d have dl: "distinct ?L" by simp
    from r e have p: "pickProperties d ?L = Inr r" by simp
    note res = pickProperties_result [OF o dl p]
    show ?thesis
      unfolding res(1) res(3)
      by (auto simp: res(2) o propertiesOf_def map_of_tabulate comp_def)
  qed
  with e show ?thesis by blast
qed

text \<open>
  The theorem at the document of \<open>emptySchema().addString("s").addBoolean("b", {}, false)\<close>
  with \<open>s\<close> omitted, as in the repository's test of \<open>omitProperties\<close>.
\<close>

theorem omitProperties_is_pickProperties_of_complement_witness:
  "isSimpleObjectSchema (schemaObject documentSB)
   \<and> omitProperties documentSB [''s''] = pickProperties documentSB [''b'']
   \<and> omitProperties documentSB [''s''] = Inr documentB
   \<and> keysOf (getp (schemaObject documentB) ''properties'') = [''b'']
   \<and> \<not> isRequiredIn (schemaObject documentB) ''s''"
proof -
  have s: "isSimpleObjectSchema (schemaObject documentSB)"
    by (simp add: documentSB_def documentOf_def isSimpleObjectSchema_def isObjectSchema_def
        hasType_def hasAdditionalProperties_def hasSchemasCombinationKeywords_def)
  have k: "keysOf (propertiesOf (schemaObject documentSB)) = [''s'', ''b'']"
    by (simp add: documentSB_def documentOf_def propertiesOf_def orEmptyObject_def)
  have p: "pickProperties documentSB [''b''] = Inr documentB"
    by (simp add: documentSB_def documentB_def documentOf_def pickProperties_def Let_def
        cloneJSON_def orEmptyObject_def newSchemaBuilder_def containsRef.simps
        isObjectSchema_def hasType_def hasSchemasCombinationKeywords_def)
  from omitProperties_is_pickProperties_of_complement [OF s, of "[''s'']" documentB] s k p
  show ?thesis by simp
qed

subsection \<open>C4: the required list\<close>

text \<open>
  Claim C4 on the code. The document of \<open>emptySchema().addString("a")\<close> requires \<open>a\<close>;
  \<open>replaceProperty("a", stringSchema(), false)\<close> on it returns a document whose
  \<open>required\<close> is present and is the empty list. The document of
  \<open>emptySchema().addString("a").addString("b")\<close> requires \<open>a\<close> and \<open>b\<close>;
  \<open>renameProperty("a", "b")\<close> on it returns a document whose \<open>required\<close> names \<open>b\<close>
  twice.
\<close>

theorem replaceProperty_leaves_empty_required:
  "emptySchema (JObj []) False = Inr emptyDocument
   \<and> addString emptyDocument ''a'' (JObj []) None False = Inr documentA
   \<and> stringSchema (JObj []) False = Inr stringDocument
   \<and> replaceProperty documentA ''a'' (Inl stringDocument) (Some False) =
       Inr (documentOf
              (JObj [(''type'', JStr ''object''), (''additionalProperties'', JBool False),
                     (''properties'', JObj [(''a'', JObj [(''type'', JStr ''string'')])]),
                     (''required'', JArr [])]))
   \<and> addString documentA ''b'' (JObj []) None False = Inr documentAB
   \<and> renameProperty documentAB ''a'' ''b'' =
       Inr (documentOf
              (JObj [(''type'', JStr ''object''), (''additionalProperties'', JBool False),
                     (''properties'', JObj [(''b'', JObj [(''type'', JStr ''string'')])]),
                     (''required'', JArr [JStr ''b'', JStr ''b''])]))"
  by (simp add: emptySchema_def emptyDocument_def documentA_def documentAB_def
      stringDocument_def documentOf_def addString_def stringSchema_def addProperty_def
      replaceProperty_def renameProperty_def pushRequired_def orEmptyObject_def
      orEmptyArray_def newSchemaBuilder_def cloneJSON_def typeOrNullable_def
      containsRef.simps Let_def isObjectSchema_def isSimpleObjectSchema_def hasType_def
      hasAdditionalProperties_def hasSchemasCombinationKeywords_def)

subsection \<open>C2: strings to numbers\<close>






subsection \<open>Helper lemmas: cached functions, copies and dates\<close>

lemma cache_own:
  "cacheValidationFunction w d = (w', d') \<Longrightarrow> cachedForOwnSchema d \<Longrightarrow>
     cachedForOwnSchema d' \<and> schemaObject d' = schemaObject d"
  by (auto simp: cacheValidationFunction_def cachedForOwnSchema_def split: if_splits)

lemma cacheList_own:
  "cacheListValidationFunction w d = (w', d') \<Longrightarrow> cachedForOwnSchema d \<Longrightarrow>
     cachedForOwnSchema d' \<and> schemaObject d' = schemaObject d"
  by (auto simp: cacheListValidationFunction_def cachedForOwnSchema_def split: if_splits)

lemma own_update:
  assumes "\<forall>d \<in> set ds. cachedForOwnSchema d" "cachedForOwnSchema d'"
  shows "\<forall>d \<in> set (ds[i := d']). cachedForOwnSchema d"
  using assms by (auto dest!: set_update_subset_insert [THEN subsetD])

lemma reachable_own:
  "reachable ajv w ds \<Longrightarrow> \<forall>d \<in> set ds. cachedForOwnSchema d"
proof (induction rule: reachable.induct)
  case r_init
  then show ?case by simp
next
  case (r_new w ds s cfg d)
  then show ?case by (auto simp: newSchemaBuilder_def cachedForOwnSchema_def split: if_splits)
next
  case (r_config w ds c)
  then show ?case by simp
next
  case (r_cache w ds i w' d')
  then show ?case by (intro own_update) (auto dest: cache_own)
next
  case (r_cacheList w ds i w' d')
  then show ?case by (intro own_update) (auto dest: cacheList_own)
next
  case (r_validate w ds i x r w' d')
  from validate_steps [OF r_validate.hyps(3)] r_validate show ?case
    by (intro own_update) (auto dest: cache_own)
next
  case (r_validateList w ds i xs r w' d')
  from validateList_steps [OF r_validateList.hyps(3)] r_validateList show ?case
    by (intro own_update) (auto dest: cacheList_own)
qed

lemma cacheList_function:
  assumes "cachedForOwnSchema d"
  shows "\<exists>cfg. listValidationFunction (snd (cacheListValidationFunction w d))
           = Some (Compiled cfg [(''schema'', schemaObject d)] listSchema)"
proof (cases "listValidationFunction d")
  case None
  then show ?thesis by (simp add: cacheListValidationFunction_def)
next
  case (Some f)
  obtain cfg reg s where f: "f = Compiled cfg reg s" by (cases f)
  with Some assms show ?thesis
    by (auto simp: cacheListValidationFunction_def cachedForOwnSchema_def)
qed


lemma listSchema_minItems:
  "getp listSchema ''type'' = JStr ''array''" "getp listSchema ''minItems'' = JNum (Fin 1)"
  by (simp_all add: listSchema_def)

lemma enforcesMinItems_sampleEngine: "enforcesMinItems sampleEngine"
  by (auto simp: enforcesMinItems_def sampleEngine_def minItemsViolations_def)










lemma newSchemaBuilder_documentOf:
  "\<not> containsRef s \<Longrightarrow> newSchemaBuilder s None = Inr (documentOf s)"
  by (simp add: newSchemaBuilder_def documentOf_def)

lemma reachable_single:
  "\<not> containsRef s \<Longrightarrow> reachable ajv initialWorld [documentOf s]"
  by (rule r_new [OF r_init newSchemaBuilder_documentOf])


subsection \<open>C7: the empty list\<close>

text \<open>
  Claim C7. Given an engine that enforces the least number of items of an array schema,
  in every reachable state and for every document of it, \<open>validateList\<close> and hence
  \<open>parseList\<close> on the empty list raise the validation error built from the engine's
  violations: the list form is compiled from the wrapper of type array with \<open>minItems\<close> 1.
\<close>

theorem validateList_rejects_empty_list:
  assumes "enforcesMinItems ajv" and "reachable ajv w ds" and "d \<in> set ds"
  shows "\<exists>errs. errs \<noteq> []
           \<and> fst (validateList ajv w d []) = Inl (validationError (errorsText errs) errs)
           \<and> fst (parseList ajv w d []) = Inl (validationError (errorsText errs) errs)"
proof -
  from reachable_own [OF assms(2)] assms(3) have o: "cachedForOwnSchema d" by simp
  from cacheList_function [OF o, of w] obtain cfg where
    f: "listValidationFunction (snd (cacheListValidationFunction w d))
          = Some (Compiled cfg [(''schema'', schemaObject d)] listSchema)" ..
  let ?errs = "ajv cfg [(''schema'', schemaObject d)] listSchema (JArr [])"
  from assms(1) have n: "?errs \<noteq> []"
    unfolding enforcesMinItems_def using listSchema_minItems by force
  have v: "fst (validateList ajv w d []) = Inl (validationError (errorsText ?errs) ?errs)"
    using f n by (cases "cacheListValidationFunction w d") (simp add: validateList_def Let_def)
  have "fst (parseList ajv w d []) = Inl (validationError (errorsText ?errs) ?errs)"
    using v by (cases "validateList ajv w d []") (auto simp: parseList_def jsonCopy_def)
  with v n show ?thesis by auto
qed

text \<open>The theorem at a string document in the initial state, with the sample engine.\<close>

theorem validateList_rejects_empty_list_witness:
  "enforcesMinItems sampleEngine
   \<and> reachable sampleEngine initialWorld [documentOf (JObj [(''type'', JStr ''string'')])]
   \<and> (\<exists>errs. errs \<noteq> []
         \<and> fst (validateList sampleEngine initialWorld
                  (documentOf (JObj [(''type'', JStr ''string'')])) [])
             = Inl (validationError (errorsText errs) errs)
         \<and> fst (parseList sampleEngine initialWorld
                  (documentOf (JObj [(''type'', JStr ''string'')])) [])
             = Inl (validationError (errorsText errs) errs))"
proof -
  have r: "reachable sampleEngine initialWorld [documentOf (JObj [(''type'', JStr ''string'')])]"
    by (rule reachable_single) (simp add: containsRef.simps)
  from validateList_rejects_empty_list [OF enforcesMinItems_sampleEngine r]
    enforcesMinItems_sampleEngine r
  show ?thesis by simp
qed

subsection \<open>C10: a nullable integer is not truncated\<close>



subsection \<open>C3: dates through parse and validate\<close>











subsection \<open>C5: mergeProperties\<close>













subsection \<open>C8: the caller's data\<close>













end
